theory Spec2Isabelle
  imports Complex_Main "HOL-Library.List_Lexorder" "HOL-Library.Char_ord" "HOL-Library.AList"
    "HOL-Library.Multiset"
begin

section \<open>Registro de Lecturas: the persistence and query layer\<close>

text \<open>
  The program keeps its data in an SQLite file and reaches it through Python's
  \<^verbatim>\<open>sqlite3\<close> module (\<^verbatim>\<open>modelo.py\<close>); \<^verbatim>\<open>controlador.py\<close> coerces the form
  input and calls the model. The embedding below follows the methods of
  \<^verbatim>\<open>DatabaseManager\<close>, \<^verbatim>\<open>LibroModel\<close>, \<^verbatim>\<open>UsuarioModel\<close>, \<^verbatim>\<open>InformeModel\<close> and
  \<^verbatim>\<open>MainController\<close>; every SQL statement of the source is a function on the
  table it reads or writes, with the engine's rules for dynamic typing
  (storage classes, column affinity, three-valued logic, \<^verbatim>\<open>LIKE\<close>) written out.

  Conventions of the model:
  \<^item> a value that crosses the Python/SQLite boundary is a \<open>val\<close>: \<open>VNull\<close> is
    \<^verbatim>\<open>None\<close>/\<^verbatim>\<open>NULL\<close>, \<open>VInt\<close> a Python \<^verbatim>\<open>int\<close>/\<^verbatim>\<open>INTEGER\<close>, \<open>VReal\<close> a
    \<^verbatim>\<open>float\<close>/\<^verbatim>\<open>REAL\<close>, \<open>VText\<close> a \<^verbatim>\<open>str\<close>/\<^verbatim>\<open>TEXT\<close>;
  \<^item> a Python integer is unbounded, a stored \<^verbatim>\<open>INTEGER\<close> has 64 bits: binding a
    parameter outside that range raises \<^verbatim>\<open>OverflowError\<close>;
  \<^item> a float is its exact rational value: comparisons are the engine's, sums and
    averages are exact. The decimal text of a float depends on its binary
    representation, which a rational does not hold, so the two renderings the
    program uses are parameters of the model (\<open>floats\<close>) and nothing is assumed
    of them;
  \<^item> a character is a code point below 256, a string a list of them;
  \<^item> a Python \<^verbatim>\<open>dict\<close> is an association list in insertion order with
    distinct keys; the clock (\<^verbatim>\<open>datetime.now()\<close>, \<^verbatim>\<open>CURRENT_TIMESTAMP\<close>) is a
    parameter.
\<close>

subsection \<open>Values\<close>

datatype val = VNull | VInt int | VReal rat | VText string

datatype error =
    KeyError string
  | IndexError
  | TypeError
  | ValueError
  | OverflowError
  | IntegrityError string
  | OperationalError
  | JSONDecodeError

type_synonym pydict = "(string \<times> val) list"

record clock =
  year :: int
  today :: string
  timestamp :: string

text \<open>
  The text of a float: \<open>py_repr\<close> is Python's \<^verbatim>\<open>str(x)\<close>, \<open>sql_text\<close> the
  engine's conversion of a \<^verbatim>\<open>REAL\<close> to \<^verbatim>\<open>TEXT\<close>.
\<close>

record floats =
  py_repr :: "rat \<Rightarrow> string"
  sql_text :: "rat \<Rightarrow> string"

text \<open>What \<^verbatim>\<open>sqlite3\<close> accepts as a parameter: an integer must fit 64 bits.\<close>

definition bindable :: "val \<Rightarrow> bool" where
  "bindable v = (case v of VInt i \<Rightarrow> - (2 ^ 63) \<le> i \<and> i < 2 ^ 63 | _ \<Rightarrow> True)"

subsection \<open>Text of numbers, numbers of text\<close>

definition digit_char :: "nat \<Rightarrow> char" where
  "digit_char d = char_of (48 + d)"

definition is_digit :: "char \<Rightarrow> bool" where
  "is_digit c = (CHR ''0'' \<le> c \<and> c \<le> CHR ''9'')"

definition digit_val :: "char \<Rightarrow> nat" where
  "digit_val c = of_char c - 48"

function nat_text :: "nat \<Rightarrow> string" where
  "nat_text n = (if n < 10 then [digit_char n] else nat_text (n div 10) @ [digit_char (n mod 10)])"
  by pat_completeness auto
termination
  by (relation "measure id") auto

declare nat_text.simps [simp del]

definition int_text :: "int \<Rightarrow> string" where
  "int_text i = (if i < 0 then CHR ''-'' # nat_text (nat (- i)) else nat_text (nat i))"

text \<open>\<^verbatim>\<open>str(value)\<close>, as an f-string formats a scalar.\<close>

fun py_str :: "floats \<Rightarrow> val \<Rightarrow> string" where
  "py_str fl VNull = ''None''"
| "py_str fl (VInt i) = int_text i"
| "py_str fl (VReal r) = py_repr fl r"
| "py_str fl (VText s) = s"

definition digits_val :: "string \<Rightarrow> nat" where
  "digits_val ds = foldl (\<lambda>n c. n * 10 + digit_val c) 0 ds"

definition sql_space :: "char \<Rightarrow> bool" where
  "sql_space c = (c = CHR '' '' \<or> (CHR 0x09 \<le> c \<and> c \<le> CHR 0x0D))"

definition signed_rest :: "string \<Rightarrow> int \<times> string" where
  "signed_rest s =
     (case s of
        [] \<Rightarrow> (1, [])
      | c # cs \<Rightarrow> if c = CHR ''-'' then (- 1, cs) else if c = CHR ''+'' then (1, cs) else (1, s))"

text \<open>
  The engine's reading of a text as a numeric literal: blanks, a sign, digits with
  an optional fraction (one digit at least) and an optional exponent, blanks.
  \<open>None\<close> when the text is not such a literal.
\<close>

definition numlit :: "string \<Rightarrow> rat option" where
  "numlit s =
     (let (sg, t1) = signed_rest (dropWhile sql_space s);
          ip = takeWhile is_digit t1;
          t2 = dropWhile is_digit t1;
          dotted = (t2 \<noteq> [] \<and> hd t2 = CHR ''.'');
          fp = (if dotted then takeWhile is_digit (tl t2) else []);
          t3 = (if dotted then dropWhile is_digit (tl t2) else t2);
          expo = (t3 \<noteq> [] \<and> (hd t3 = CHR ''e'' \<or> hd t3 = CHR ''E''));
          (esg, t4) = (if expo then signed_rest (tl t3) else (1, t3));
          ed = (if expo then takeWhile is_digit t4 else []);
          t5 = (if expo then dropWhile is_digit t4 else t3);
          mant = (of_nat (digits_val (ip @ fp)) :: rat) / 10 ^ length fp;
          e = esg * int (digits_val ed)
      in if ip = [] \<and> fp = [] then None
         else if expo \<and> ed = [] then None
         else if dropWhile sql_space t5 \<noteq> [] then None
         else Some (of_int sg * mant * (if 0 \<le> e then 10 ^ nat e else 1 / 10 ^ nat (- e))))"

subsection \<open>Column affinity\<close>

datatype affinity = TEXT | NUMERIC | INTEGER | REAL

text \<open>
  A number of a numeric column is stored as an \<^verbatim>\<open>INTEGER\<close> when it is integral
  and inside the 64-bit range, as a \<^verbatim>\<open>REAL\<close> otherwise.
\<close>

definition num_norm :: "rat \<Rightarrow> val" where
  "num_norm r =
     (if of_int \<lfloor>r\<rfloor> = r \<and> - (2 ^ 63) < \<lfloor>r\<rfloor> \<and> \<lfloor>r\<rfloor> < 2 ^ 63 - 1 then VInt \<lfloor>r\<rfloor> else VReal r)"

fun to_numeric :: "val \<Rightarrow> val" where
  "to_numeric (VText s) = (case numlit s of None \<Rightarrow> VText s | Some r \<Rightarrow> num_norm r)"
| "to_numeric (VReal r) = num_norm r"
| "to_numeric v = v"

fun to_text :: "floats \<Rightarrow> val \<Rightarrow> val" where
  "to_text fl (VInt i) = VText (int_text i)"
| "to_text fl (VReal r) = VText (sql_text fl r)"
| "to_text fl v = v"

fun apply_affinity :: "floats \<Rightarrow> affinity \<Rightarrow> val \<Rightarrow> val" where
  "apply_affinity fl TEXT v = to_text fl v"
| "apply_affinity fl NUMERIC v = to_numeric v"
| "apply_affinity fl INTEGER v = to_numeric v"
| "apply_affinity fl REAL v = (case to_numeric v of VInt i \<Rightarrow> VReal (of_int i) | w \<Rightarrow> w)"

subsection \<open>Comparison, three-valued logic, LIKE\<close>

text \<open>
  The engine's order of values: \<^verbatim>\<open>NULL\<close> first, then the numbers by value, then
  the texts by their code points.
\<close>

fun val_le :: "val \<Rightarrow> val \<Rightarrow> bool" where
  "val_le VNull _ = True"
| "val_le _ VNull = False"
| "val_le (VText s) (VText t) = (s \<le> t)"
| "val_le (VText s) _ = False"
| "val_le _ (VText t) = True"
| "val_le (VInt i) (VInt j) = (i \<le> j)"
| "val_le (VInt i) (VReal r) = (of_int i \<le> r)"
| "val_le (VReal r) (VInt j) = (r \<le> of_int j)"
| "val_le (VReal r) (VReal q) = (r \<le> q)"

definition sql_eq :: "val \<Rightarrow> val \<Rightarrow> bool option" where
  "sql_eq a b = (if a = VNull \<or> b = VNull then None else Some (val_le a b \<and> val_le b a))"

definition sql_ge :: "val \<Rightarrow> val \<Rightarrow> bool option" where
  "sql_ge a b = (if a = VNull \<or> b = VNull then None else Some (val_le b a))"

definition sql_le :: "val \<Rightarrow> val \<Rightarrow> bool option" where
  "sql_le a b = (if a = VNull \<or> b = VNull then None else Some (val_le a b))"

fun sql_and :: "bool option \<Rightarrow> bool option \<Rightarrow> bool option" where
  "sql_and (Some False) _ = Some False"
| "sql_and _ (Some False) = Some False"
| "sql_and (Some True) (Some True) = Some True"
| "sql_and _ _ = None"

fun sql_or :: "bool option \<Rightarrow> bool option \<Rightarrow> bool option" where
  "sql_or (Some True) _ = Some True"
| "sql_or _ (Some True) = Some True"
| "sql_or (Some False) (Some False) = Some False"
| "sql_or _ _ = None"

definition ascii_lower :: "char \<Rightarrow> char" where
  "ascii_lower c = (if CHR ''A'' \<le> c \<and> c \<le> CHR ''Z'' then char_of (of_char c + (32::nat)) else c)"

text \<open>
  \<^verbatim>\<open>text LIKE pattern\<close>: \<^verbatim>\<open>%\<close> stands for any run of characters, \<^verbatim>\<open>_\<close> for
  one character, any other character for itself, upper and lower case of the
  ASCII letters alike.
\<close>

fun like :: "string \<Rightarrow> string \<Rightarrow> bool" where
  "like [] [] = True"
| "like [] (c # cs) = False"
| "like (p # ps) [] = (p = CHR ''%'' \<and> like ps [])"
| "like (p # ps) (c # cs) =
     (if p = CHR ''%'' then like ps (c # cs) \<or> like (p # ps) cs
      else (p = CHR ''_'' \<or> ascii_lower p = ascii_lower c) \<and> like ps cs)"

definition sql_like :: "floats \<Rightarrow> val \<Rightarrow> string \<Rightarrow> bool option" where
  "sql_like fl v pat = (case to_text fl v of VText t \<Rightarrow> Some (like pat t) | _ \<Rightarrow> None)"

subsection \<open>Stable sorting by a key\<close>

fun insort_by :: "('a \<Rightarrow> 'a \<Rightarrow> bool) \<Rightarrow> 'a \<Rightarrow> 'a list \<Rightarrow> 'a list" where
  "insort_by le x [] = [x]"
| "insort_by le x (y # ys) = (if le x y then x # y # ys else y # insort_by le x ys)"

definition sort_by :: "('a \<Rightarrow> 'a \<Rightarrow> bool) \<Rightarrow> 'a list \<Rightarrow> 'a list" where
  "sort_by le xs = foldr (insort_by le) xs []"

subsection \<open>The table of books\<close>

record libro =
  libro_id :: int
  titulo :: val
  autor :: val
  genero :: val
  subgenero :: val
  anio_lectura :: val
  fecha_lectura :: val
  calificacion :: val
  paginas :: val
  editorial :: val
  comentario :: val
  fecha_creacion :: val
  fecha_actualizacion :: val

text \<open>
  A table: its rows in rowid order and the \<^verbatim>\<open>AUTOINCREMENT\<close> counter, the largest
  rowid the table ever held.
\<close>

record 'r table =
  rows :: "'r list"
  seq :: int

text \<open>\<^verbatim>\<open>dict(zip(column_names, libro))\<close>\<close>

definition libro_dict :: "libro \<Rightarrow> pydict" where
  "libro_dict b =
     [(''id'', VInt (libro_id b)), (''titulo'', titulo b), (''autor'', autor b),
      (''genero'', genero b), (''subgenero'', subgenero b),
      (''anio_lectura'', anio_lectura b), (''fecha_lectura'', fecha_lectura b),
      (''calificacion'', calificacion b), (''paginas'', paginas b),
      (''editorial'', editorial b), (''comentario'', comentario b),
      (''fecha_creacion'', fecha_creacion b),
      (''fecha_actualizacion'', fecha_actualizacion b)]"

subsection \<open>LibroModel.obtener\_libros\<close>

text \<open>
  One condition of the \<^verbatim>\<open>WHERE\<close> clause with the parameter it binds; the search
  binds the pattern \<^verbatim>\<open>f'%{value}%'\<close>, twice.
\<close>

datatype condition =
    AnioEq val
  | GeneroEq val
  | CalifGe val
  | CalifLe val
  | Search string

fun conditions :: "floats \<Rightarrow> pydict \<Rightarrow> condition list" where
  "conditions fl [] = []"
| "conditions fl ((key, v) # kvs) =
     (if key = ''anio_lectura'' then [AnioEq v]
      else if key = ''genero'' then [GeneroEq v]
      else if key = ''calificacion_min'' then [CalifGe v]
      else if key = ''calificacion_max'' then [CalifLe v]
      else if key = ''search'' then [Search (''%'' @ py_str fl v @ ''%'')]
      else []) @ conditions fl kvs"

fun params :: "condition \<Rightarrow> val list" where
  "params (AnioEq v) = [v]"
| "params (GeneroEq v) = [v]"
| "params (CalifGe v) = [v]"
| "params (CalifLe v) = [v]"
| "params (Search pat) = [VText pat, VText pat]"

text \<open>
  A parameter has no affinity, so the comparison gives it the affinity of the
  column it meets.
\<close>

fun holds :: "floats \<Rightarrow> libro \<Rightarrow> condition \<Rightarrow> bool option" where
  "holds fl b (AnioEq v) = sql_eq (anio_lectura b) (apply_affinity fl NUMERIC v)"
| "holds fl b (GeneroEq v) = sql_eq (genero b) (apply_affinity fl TEXT v)"
| "holds fl b (CalifGe v) = sql_ge (calificacion b) (apply_affinity fl NUMERIC v)"
| "holds fl b (CalifLe v) = sql_le (calificacion b) (apply_affinity fl NUMERIC v)"
| "holds fl b (Search pat) = sql_or (sql_like fl (titulo b) pat) (sql_like fl (autor b) pat)"

text \<open>The \<^verbatim>\<open>WHERE\<close> clause keeps a row when the conjunction is true, not when it is \<^verbatim>\<open>NULL\<close>.\<close>

definition where_clause :: "floats \<Rightarrow> condition list \<Rightarrow> libro \<Rightarrow> bool" where
  "where_clause fl cs b =
     (foldr (\<lambda>c acc. sql_and (holds fl b c) acc) cs (Some True) = Some True)"

definition fecha_desc :: "libro \<Rightarrow> libro \<Rightarrow> bool" where
  "fecha_desc a b = val_le (fecha_lectura b) (fecha_lectura a)"

text \<open>
  \<^verbatim>\<open>execute\<close> binds the parameters before the statement runs and raises on one
  it cannot bind.
\<close>

definition obtener_libros :: "floats \<Rightarrow> pydict option \<Rightarrow> libro table \<Rightarrow> error + pydict list" where
  "obtener_libros fl filtros t =
     (let cs = (case filtros of None \<Rightarrow> [] | Some f \<Rightarrow> conditions fl f)
      in if list_all bindable (concat (map params cs))
         then Inr (map libro_dict (sort_by fecha_desc (filter (where_clause fl cs) (rows t))))
         else Inl OverflowError)"

text \<open>The five keys the loop over the filter looks for.\<close>

definition supported :: "string \<Rightarrow> bool" where
  "supported key = (key \<in> {''anio_lectura'', ''genero'', ''calificacion_min'',
                           ''calificacion_max'', ''search''})"

subsection \<open>LibroModel.crear\_libro, actualizar\_libro, eliminar\_libro\<close>

text \<open>\<^verbatim>\<open>d.get(key, default)\<close>\<close>

definition get_or :: "pydict \<Rightarrow> string \<Rightarrow> val \<Rightarrow> val" where
  "get_or d key dflt = (case map_of d key of None \<Rightarrow> dflt | Some v \<Rightarrow> v)"

text \<open>
  The tuple of parameters both statements bind, in the order the source builds
  it: the three subscripts raise \<^verbatim>\<open>KeyError\<close>, the others fall back on a default.
\<close>

record libro_params =
  p_titulo :: val
  p_autor :: val
  p_genero :: val
  p_subgenero :: val
  p_anio_lectura :: val
  p_fecha_lectura :: val
  p_calificacion :: val
  p_paginas :: val
  p_editorial :: val
  p_comentario :: val

definition libro_params :: "clock \<Rightarrow> pydict \<Rightarrow> error + libro_params" where
  "libro_params now libro_data =
     (case map_of libro_data ''titulo'' of
        None \<Rightarrow> Inl (KeyError ''titulo'')
      | Some ti \<Rightarrow>
     (case map_of libro_data ''autor'' of
        None \<Rightarrow> Inl (KeyError ''autor'')
      | Some au \<Rightarrow>
     (case map_of libro_data ''genero'' of
        None \<Rightarrow> Inl (KeyError ''genero'')
      | Some ge \<Rightarrow>
          Inr \<lparr>p_titulo = ti, p_autor = au, p_genero = ge,
               p_subgenero = get_or libro_data ''subgenero'' (VText []),
               p_anio_lectura = get_or libro_data ''anio_lectura'' (VInt (year now)),
               p_fecha_lectura = get_or libro_data ''fecha_lectura'' (VText (today now)),
               p_calificacion = get_or libro_data ''calificacion'' (VInt 0),
               p_paginas = get_or libro_data ''paginas'' (VInt 0),
               p_editorial = get_or libro_data ''editorial'' (VText []),
               p_comentario = get_or libro_data ''comentario'' (VText [])\<rparr>)))"

definition param_list :: "libro_params \<Rightarrow> val list" where
  "param_list p =
     [p_titulo p, p_autor p, p_genero p, p_subgenero p, p_anio_lectura p, p_fecha_lectura p,
      p_calificacion p, p_paginas p, p_editorial p, p_comentario p]"

text \<open>
  The ten columns both statements write, each value under the affinity of its
  column (\<^verbatim>\<open>DATE\<close> is a \<^verbatim>\<open>NUMERIC\<close> column).
\<close>

definition write_columns :: "floats \<Rightarrow> libro_params \<Rightarrow> libro \<Rightarrow> libro" where
  "write_columns fl p b =
     b\<lparr>titulo := apply_affinity fl TEXT (p_titulo p),
       autor := apply_affinity fl TEXT (p_autor p),
       genero := apply_affinity fl TEXT (p_genero p),
       subgenero := apply_affinity fl TEXT (p_subgenero p),
       anio_lectura := apply_affinity fl INTEGER (p_anio_lectura p),
       fecha_lectura := apply_affinity fl NUMERIC (p_fecha_lectura p),
       calificacion := apply_affinity fl REAL (p_calificacion p),
       paginas := apply_affinity fl INTEGER (p_paginas p),
       editorial := apply_affinity fl TEXT (p_editorial p),
       comentario := apply_affinity fl TEXT (p_comentario p)\<rparr>"

text \<open>The \<^verbatim>\<open>NOT NULL\<close> constraints of the table, in column order.\<close>

definition not_null_violation :: "libro \<Rightarrow> string option" where
  "not_null_violation b =
     (if titulo b = VNull then Some ''libros.titulo''
      else if autor b = VNull then Some ''libros.autor''
      else if genero b = VNull then Some ''libros.genero''
      else None)"

text \<open>
  \<^verbatim>\<open>AUTOINCREMENT\<close>: one more than the largest rowid the table holds or ever held;
  the insertion fails when that is the largest 64-bit integer.
\<close>

definition next_id :: "('r \<Rightarrow> int) \<Rightarrow> 'r table \<Rightarrow> int option" where
  "next_id rowid t =
     (let m = foldr max (map rowid (rows t)) (seq t)
      in if m < 2 ^ 63 - 1 then Some (m + 1) else None)"

definition crear_libro ::
  "floats \<Rightarrow> clock \<Rightarrow> pydict \<Rightarrow> libro table \<Rightarrow> error + (int \<times> libro table)" where
  "crear_libro fl now libro_data t =
     (case libro_params now libro_data of
        Inl e \<Rightarrow> Inl e
      | Inr p \<Rightarrow>
          if \<not> list_all bindable (param_list p) then Inl OverflowError
          else
            (case next_id libro_id t of
               None \<Rightarrow> Inl OperationalError
             | Some i \<Rightarrow>
                 (let b = write_columns fl p
                            \<lparr>libro_id = i, titulo = VNull, autor = VNull, genero = VNull,
                             subgenero = VNull, anio_lectura = VNull, fecha_lectura = VNull,
                             calificacion = VNull, paginas = VNull, editorial = VNull,
                             comentario = VNull, fecha_creacion = VText (timestamp now),
                             fecha_actualizacion = VText (timestamp now)\<rparr>
                  in case not_null_violation b of
                       Some c \<Rightarrow> Inl (IntegrityError c)
                     | None \<Rightarrow> Inr (i, t\<lparr>rows := rows t @ [b], seq := i\<rparr>))))"

text \<open>
  \<^verbatim>\<open>UPDATE libros SET ... WHERE id = ?\<close>: every row with the id is rewritten; a
  constraint is checked on the rows the statement rewrites, so it cannot fail
  when there is none. The method returns \<^verbatim>\<open>True\<close> whenever it returns.
\<close>

definition update_row :: "floats \<Rightarrow> clock \<Rightarrow> libro_params \<Rightarrow> libro \<Rightarrow> libro" where
  "update_row fl now p b =
     (write_columns fl p b)\<lparr>fecha_actualizacion := VText (timestamp now)\<rparr>"

definition actualizar_libro ::
  "floats \<Rightarrow> clock \<Rightarrow> int \<Rightarrow> pydict \<Rightarrow> libro table \<Rightarrow> error + libro table" where
  "actualizar_libro fl now i libro_data t =
     (case libro_params now libro_data of
        Inl e \<Rightarrow> Inl e
      | Inr p \<Rightarrow>
          if \<not> list_all bindable (param_list p @ [VInt i]) then Inl OverflowError
          else
            (let hit = filter (\<lambda>b. libro_id b = i) (rows t)
             in case List.map_filter (\<lambda>b. not_null_violation (update_row fl now p b)) hit of
                  c # _ \<Rightarrow> Inl (IntegrityError c)
                | [] \<Rightarrow>
                    Inr (t\<lparr>rows := map (\<lambda>b. if libro_id b = i then update_row fl now p b else b)
                                       (rows t)\<rparr>)))"

definition eliminar_libro :: "int \<Rightarrow> libro table \<Rightarrow> error + libro table" where
  "eliminar_libro i t =
     (if bindable (VInt i) then Inr (t\<lparr>rows := filter (\<lambda>b. libro_id b \<noteq> i) (rows t)\<rparr>)
      else Inl OverflowError)"

subsection \<open>LibroModel.obtener\_estadisticas\<close>











subsection \<open>InformeModel.generar\_informe\_lectura\<close>


subsection \<open>DatabaseManager.\_initialize\_database\<close>

record usuario =
  usuario_id :: int
  nombre :: val
  email :: val
  avatar :: val
  preferencias :: val
  usuario_fecha_creacion :: val
  usuario_fecha_actualizacion :: val

text \<open>The database file: each of the two tables is there or not yet created.\<close>

record database =
  tabla_libros :: "libro table option"
  tabla_usuario :: "usuario table option"

definition nueva :: database where
  "nueva = \<lparr>tabla_libros = None, tabla_usuario = None\<rparr>"

text \<open>\<^verbatim>\<open>CREATE TABLE IF NOT EXISTS\<close>\<close>

definition create_if_not_exists :: "'r table option \<Rightarrow> 'r table" where
  "create_if_not_exists t = (case t of None \<Rightarrow> \<lparr>rows = [], seq = 0\<rparr> | Some u \<Rightarrow> u)"

definition usuario_por_defecto :: "floats \<Rightarrow> clock \<Rightarrow> int \<Rightarrow> usuario" where
  "usuario_por_defecto fl now i =
     \<lparr>usuario_id = i, nombre = apply_affinity fl TEXT (VText ''Lector''),
      email = apply_affinity fl TEXT (VText ''lector@example.com''),
      avatar = apply_affinity fl TEXT (VText ''default_avatar.png''),
      preferencias = apply_affinity fl TEXT (VText ''{}''),
      usuario_fecha_creacion = VText (timestamp now),
      usuario_fecha_actualizacion = VText (timestamp now)\<rparr>"

text \<open>
  The two \<^verbatim>\<open>CREATE TABLE\<close> statements, the count and the insertion. The result is
  the exception the method raises, if any, and the database it leaves: the tables
  are created outside the transaction of the insertion and stay when it fails.
\<close>

definition initialize_database :: "floats \<Rightarrow> clock \<Rightarrow> database \<Rightarrow> error option \<times> database" where
  "initialize_database fl now db =
     (let l = create_if_not_exists (tabla_libros db);
          u = create_if_not_exists (tabla_usuario db)
      in if int (length (rows u)) = 0
         then (case next_id usuario_id u of
                 None \<Rightarrow> (Some OperationalError, \<lparr>tabla_libros = Some l, tabla_usuario = Some u\<rparr>)
               | Some i \<Rightarrow>
                   (None, \<lparr>tabla_libros = Some l,
                           tabla_usuario =
                             Some (u\<lparr>rows := rows u @ [usuario_por_defecto fl now i], seq := i\<rparr>)\<rparr>))
         else (None, \<lparr>tabla_libros = Some l, tabla_usuario = Some u\<rparr>))"

subsection \<open>MainController.add\_book, update\_book\<close>

text \<open>The truth value of a scalar: \<^verbatim>\<open>None\<close>, zero and the empty string are false.\<close>

definition truthy :: "val \<Rightarrow> bool" where
  "truthy v = (case v of VNull \<Rightarrow> False | VInt i \<Rightarrow> i \<noteq> 0 | VReal r \<Rightarrow> r \<noteq> 0 | VText s \<Rightarrow> s \<noteq> [])"

text \<open>
  \<^verbatim>\<open>int(s)\<close> for a string: blanks on both sides, an optional sign, then digits, a
  single underscore allowed between two digits.
\<close>

definition py_space :: "char \<Rightarrow> bool" where
  "py_space c = (c = CHR '' '' \<or> (CHR 0x09 \<le> c \<and> c \<le> CHR 0x0D) \<or> (CHR 0x1C \<le> c \<and> c \<le> CHR 0x1F)
                 \<or> c = CHR 0x85 \<or> c = CHR 0xA0)"

definition strip :: "string \<Rightarrow> string" where
  "strip s = rev (dropWhile py_space (rev (dropWhile py_space s)))"

fun digit_groups :: "string \<Rightarrow> bool" where
  "digit_groups [] = False"
| "digit_groups [c] = is_digit c"
| "digit_groups (c # d # cs) =
     (is_digit c \<and> (if d = CHR ''_'' then digit_groups cs else digit_groups (d # cs)))"

definition py_int_text :: "string \<Rightarrow> int option" where
  "py_int_text s =
     (let (sg, ds) = signed_rest (strip s)
      in if digit_groups ds then Some (sg * int (digits_val (filter is_digit ds))) else None)"

text \<open>\<^verbatim>\<open>int(x)\<close>: a float is truncated towards zero, \<^verbatim>\<open>None\<close> is a \<^verbatim>\<open>TypeError\<close>.\<close>

fun py_int :: "val \<Rightarrow> error + int" where
  "py_int VNull = Inl TypeError"
| "py_int (VInt i) = Inr i"
| "py_int (VReal r) = Inr (if 0 \<le> r then \<lfloor>r\<rfloor> else \<lceil>r\<rceil>)"
| "py_int (VText s) = (case py_int_text s of None \<Rightarrow> Inl ValueError | Some i \<Rightarrow> Inr i)"

text \<open>
  The conversion of one field of the form,

  \<^verbatim>\<open>if book_data.get(key): try: book_data[key] = int(book_data[key])\<close>
  \<^verbatim>\<open>except ValueError: book_data[key] = default\<close>

  Only \<^verbatim>\<open>ValueError\<close> is caught there; assigning to a key the dictionary holds
  keeps the key in its place.
\<close>

definition coerce_field :: "string \<Rightarrow> val \<Rightarrow> pydict \<Rightarrow> error + pydict" where
  "coerce_field key dflt d =
     (case map_of d key of
        None \<Rightarrow> Inr d
      | Some v \<Rightarrow>
          if \<not> truthy v then Inr d
          else (case py_int v of
                  Inr i \<Rightarrow> Inr (AList.update key (VInt i) d)
                | Inl ValueError \<Rightarrow> Inr (AList.update key dflt d)
                | Inl e \<Rightarrow> Inl e))"

definition coerce :: "clock \<Rightarrow> pydict \<Rightarrow> error + pydict" where
  "coerce now d =
     (case coerce_field ''anio_lectura'' (VInt (year now)) d of
        Inl e \<Rightarrow> Inl e
      | Inr d1 \<Rightarrow> coerce_field ''paginas'' (VInt 0) d1)"

text \<open>
  \<^verbatim>\<open>_refresh_books_table()\<close> after a write: the two lists of the filter boxes are
  sorted, and \<^verbatim>\<open>sorted\<close> raises \<^verbatim>\<open>TypeError\<close> on a list that holds a string and a
  number. The methods of the view are taken not to fail.
\<close>

definition sortable :: "val list \<Rightarrow> bool" where
  "sortable vs =
     (\<not> (list_ex (\<lambda>v. case v of VText s \<Rightarrow> True | _ \<Rightarrow> False) vs
         \<and> list_ex (\<lambda>v. case v of VInt i \<Rightarrow> True | VReal r \<Rightarrow> True | _ \<Rightarrow> False) vs))"

definition refresh_books_table :: "libro table \<Rightarrow> error option" where
  "refresh_books_table t =
     (let years = filter truthy (map anio_lectura (rows t));
          genres = filter truthy (map genero (rows t))
      in if sortable years \<and> sortable genres then None else Some TypeError)"

text \<open>
  What the user is shown: the success message, the message of the validation, or
  the message of \<^verbatim>\<open>except Exception\<close> with the exception caught.
\<close>

datatype aviso = Exito | Obligatorios | Fallo error

definition validado :: "pydict \<Rightarrow> bool" where
  "validado d = (truthy (get_or d ''titulo'' VNull) \<and> truthy (get_or d ''autor'' VNull))"

definition add_book :: "floats \<Rightarrow> clock \<Rightarrow> pydict \<Rightarrow> libro table \<Rightarrow> aviso \<times> libro table" where
  "add_book fl now book_data t =
     (if \<not> validado book_data then (Obligatorios, t)
      else
        (case coerce now book_data of
           Inl e \<Rightarrow> (Fallo e, t)
         | Inr d \<Rightarrow>
             (case crear_libro fl now d t of
                Inl e \<Rightarrow> (Fallo e, t)
              | Inr (i, t') \<Rightarrow>
                  (case refresh_books_table t' of
                     Some e \<Rightarrow> (Fallo e, t')
                   | None \<Rightarrow> (Exito, t')))))"

definition update_book ::
  "floats \<Rightarrow> clock \<Rightarrow> int \<Rightarrow> pydict \<Rightarrow> libro table \<Rightarrow> aviso \<times> libro table" where
  "update_book fl now book_id book_data t =
     (if \<not> validado book_data then (Obligatorios, t)
      else
        (case coerce now book_data of
           Inl e \<Rightarrow> (Fallo e, t)
         | Inr d \<Rightarrow>
             (case actualizar_libro fl now book_id d t of
                Inl e \<Rightarrow> (Fallo e, t)
              | Inr t' \<Rightarrow>
                  (case refresh_books_table t' of
                     Some e \<Rightarrow> (Fallo e, t')
                   | None \<Rightarrow> (Exito, t')))))"

subsection \<open>Sample data\<close>




definition hoy :: clock where
  "hoy = \<lparr>year = 2025, today = ''2025-07-29'', timestamp = ''2025-07-29 12:00:00''\<rparr>"

definition vacia :: "libro table" where
  "vacia = \<lparr>rows = [], seq = 0\<rparr>"

definition libro_a :: pydict where
  "libro_a =
     [(''titulo'', VText ''Dracula''), (''autor'', VText ''Bram Stoker''),
      (''genero'', VText ''Terror''), (''anio_lectura'', VInt 2024),
      (''fecha_lectura'', VText ''2024-03-01''), (''calificacion'', VInt 5)]"

definition libro_b :: pydict where
  "libro_b =
     [(''titulo'', VText ''Ficciones''), (''autor'', VText ''Borges''),
      (''genero'', VText ''Cuento'')]"

definition fila_a :: libro where
  "fila_a =
     \<lparr>libro_id = 1, titulo = VText ''Dracula'', autor = VText ''Bram Stoker'',
      genero = VText ''Terror'', subgenero = VText [], anio_lectura = VInt 2024,
      fecha_lectura = VText ''2024-03-01'', calificacion = VReal 5, paginas = VInt 0,
      editorial = VText [], comentario = VText [],
      fecha_creacion = VText ''2025-07-29 12:00:00'',
      fecha_actualizacion = VText ''2025-07-29 12:00:00''\<rparr>"

definition fila_b :: libro where
  "fila_b =
     \<lparr>libro_id = 2, titulo = VText ''Ficciones'', autor = VText ''Borges'',
      genero = VText ''Cuento'', subgenero = VText [], anio_lectura = VInt 2025,
      fecha_lectura = VText ''2025-07-29'', calificacion = VReal 0, paginas = VInt 0,
      editorial = VText [], comentario = VText [],
      fecha_creacion = VText ''2025-07-29 12:00:00'',
      fecha_actualizacion = VText ''2025-07-29 12:00:00''\<rparr>"

definition tabla_ab :: "libro table" where
  "tabla_ab = \<lparr>rows = [fila_a, fila_b], seq = 2\<rparr>"



text \<open>The form with the year and the pages left empty.\<close>

definition formulario :: pydict where
  "formulario =
     [(''titulo'', VText ''Dracula''), (''autor'', VText ''Bram Stoker''),
      (''genero'', VText ''Terror''), (''subgenero'', VText []), (''anio_lectura'', VText []),
      (''calificacion'', VReal 3), (''paginas'', VText []), (''editorial'', VText []),
      (''comentario'', VText [])]"

definition fila_formulario :: libro where
  "fila_formulario =
     \<lparr>libro_id = 1, titulo = VText ''Dracula'', autor = VText ''Bram Stoker'',
      genero = VText ''Terror'', subgenero = VText [], anio_lectura = VText [],
      fecha_lectura = VText ''2025-07-29'', calificacion = VReal 3, paginas = VText [],
      editorial = VText [], comentario = VText [],
      fecha_creacion = VText ''2025-07-29 12:00:00'',
      fecha_actualizacion = VText ''2025-07-29 12:00:00''\<rparr>"

text \<open>The form with a year and a number of pages written in words.\<close>

definition formulario_texto :: pydict where
  "formulario_texto =
     [(''titulo'', VText ''Dracula''), (''autor'', VText ''Bram Stoker''),
      (''genero'', VText ''Terror''), (''subgenero'', VText []),
      (''anio_lectura'', VText ''dos mil''), (''calificacion'', VReal 3),
      (''paginas'', VText ''muchas''), (''editorial'', VText []), (''comentario'', VText [])]"

definition fila_texto :: libro where
  "fila_texto =
     \<lparr>libro_id = 1, titulo = VText ''Dracula'', autor = VText ''Bram Stoker'',
      genero = VText ''Terror'', subgenero = VText [], anio_lectura = VInt 2025,
      fecha_lectura = VText ''2025-07-29'', calificacion = VReal 3, paginas = VInt 0,
      editorial = VText [], comentario = VText [],
      fecha_creacion = VText ''2025-07-29 12:00:00'',
      fecha_actualizacion = VText ''2025-07-29 12:00:00''\<rparr>"

section \<open>Properties\<close>

subsection \<open>Sorting\<close>

lemma mset_insort_by: "mset (insort_by le x ys) = add_mset x (mset ys)"
  by (induction ys) simp_all

lemma mset_sort_by: "mset (sort_by le xs) = mset xs"
  unfolding sort_by_def by (induction xs) (simp_all add: mset_insort_by)


lemma length_sort_by: "length (sort_by le xs) = length xs"
  by (metis mset_sort_by size_mset)







subsection \<open>The filter of obtener\_libros\<close>

lemma conditions_filter_supported:
  "conditions fl (filter (\<lambda>kv. supported (fst kv)) f) = conditions fl f"
  by (induction f) (auto simp: supported_def)

text \<open>
  C10. \<^verbatim>\<open>obtener_libros\<close> ignores every key of the filter other than the five it
  tests: the result is the result of the call with those entries removed. With
  the filter \<^verbatim>\<open>{'id': n}\<close> it returns what the call without a filter returns, the
  whole collection: it does not fail, and the dictionaries it returns are those
  of all the rows of the table, each as often as the table holds it, whatever
  \<^verbatim>\<open>n\<close> is.
\<close>

theorem obtener_libros_ignores_unsupported:
  "obtener_libros fl (Some f) t
     = obtener_libros fl (Some (filter (\<lambda>kv. supported (fst kv)) f)) t
   \<and> obtener_libros fl (Some [(''id'', n)]) t = obtener_libros fl None t
   \<and> (\<exists>ds. obtener_libros fl (Some [(''id'', n)]) t = Inr ds
          \<and> mset ds = mset (map libro_dict (rows t))
          \<and> length ds = length (rows t))"
proof -
  have all: "filter (where_clause fl []) (rows t) = rows t"
    by (simp add: where_clause_def)
  show ?thesis
    by (simp add: obtener_libros_def conditions_filter_supported all length_sort_by mset_sort_by)
qed

subsection \<open>Creating a book and listing it by id\<close>

lemma numlit_fecha_a: "numlit ''2024-03-01'' = None"
  by (simp add: numlit_def signed_rest_def sql_space_def is_digit_def Let_def)

lemma numlit_fecha_b: "numlit ''2025-07-29'' = None"
  by (simp add: numlit_def signed_rest_def sql_space_def is_digit_def Let_def)

lemma crear_a: "crear_libro fl hoy libro_a vacia = Inr (1, \<lparr>rows = [fila_a], seq = 1\<rparr>)"
  by (simp add: crear_libro_def libro_params_def param_list_def bindable_def get_or_def
      write_columns_def not_null_violation_def next_id_def num_norm_def hoy_def libro_a_def
      vacia_def fila_a_def numlit_fecha_a Let_def)

lemma crear_b: "crear_libro fl hoy libro_b \<lparr>rows = [fila_a], seq = 1\<rparr> = Inr (2, tabla_ab)"
  by (simp add: crear_libro_def libro_params_def param_list_def bindable_def get_or_def
      write_columns_def not_null_violation_def next_id_def num_norm_def hoy_def libro_b_def
      tabla_ab_def fila_a_def fila_b_def numlit_fecha_b Let_def)

lemma listar_ab:
  "obtener_libros fl (Some [(''id'', VInt 2)]) tabla_ab = Inr [libro_dict fila_b, libro_dict fila_a]"
  by (simp add: obtener_libros_def where_clause_def sort_by_def fecha_desc_def tabla_ab_def
      fila_a_def fila_b_def)

text \<open>
  C1. Creating a book and then listing with the filter \<^verbatim>\<open>{'id': id}\<close> does not
  return exactly that book. On the empty table, at the clock \<open>hoy\<close>,
  \<^verbatim>\<open>crear_libro\<close> stores \<open>libro_a\<close> as row 1 and then \<open>libro_b\<close> as row 2, each with
  the defaults of the omitted fields (empty texts, the year and the date of the
  clock, rating 0, 0 pages); \<^verbatim>\<open>obtener_libros({'id': 2})\<close> then returns two
  different books, the one created last and the one created first, because the
  method has no branch for the key \<^verbatim>\<open>id\<close>. \<^verbatim>\<open>MainController.edit_book\<close> takes
  element 0 of this result as the selected book.
\<close>

theorem crear_libro_then_obtener_by_id:
  "crear_libro fl hoy libro_a vacia = Inr (1, \<lparr>rows = [fila_a], seq = 1\<rparr>)
   \<and> crear_libro fl hoy libro_b \<lparr>rows = [fila_a], seq = 1\<rparr> = Inr (2, tabla_ab)
   \<and> obtener_libros fl (Some [(''id'', VInt 2)]) tabla_ab
       = Inr [libro_dict fila_b, libro_dict fila_a]
   \<and> libro_dict fila_b \<noteq> libro_dict fila_a"
  by (simp add: crear_a crear_b listar_ab) (simp add: libro_dict_def fila_a_def fila_b_def)

subsection \<open>Initialization\<close>

text \<open>
  C5. Initialization is idempotent: run on the database a first run has left, it
  returns what the first run returned and leaves the database as it was, so it
  creates no table and inserts no row; the same holds after any number of further
  runs. On a new database the first run succeeds and leaves the two tables, the
  table of books empty and the table of the user with exactly one row, the
  default user: after any number of initializations exactly one user row exists.
\<close>

theorem initialize_database_idempotent:
  "initialize_database fl n2 (snd (initialize_database fl n1 db)) = initialize_database fl n1 db
   \<and> fold (\<lambda>n d. snd (initialize_database fl n d)) ns (snd (initialize_database fl n1 db))
       = snd (initialize_database fl n1 db)
   \<and> initialize_database fl n1 nueva
       = (None, \<lparr>tabla_libros = Some \<lparr>rows = [], seq = 0\<rparr>,
                  tabla_usuario = Some \<lparr>rows = [usuario_por_defecto fl n1 1], seq = 1\<rparr>\<rparr>)"
proof -
  have idem: "initialize_database fl m (snd (initialize_database fl n1 db))
      = initialize_database fl n1 db" for m
    by (simp add: initialize_database_def create_if_not_exists_def next_id_def Let_def
        split: option.splits)
  have "fold (\<lambda>n d. snd (initialize_database fl n d)) ns (snd (initialize_database fl n1 db))
       = snd (initialize_database fl n1 db)"
    by (induction ns) (simp_all add: idem)
  moreover have "initialize_database fl n1 nueva
       = (None, \<lparr>tabla_libros = Some \<lparr>rows = [], seq = 0\<rparr>,
                  tabla_usuario = Some \<lparr>rows = [usuario_por_defecto fl n1 1], seq = 1\<rparr>\<rparr>)"
    by (simp add: initialize_database_def create_if_not_exists_def next_id_def nueva_def Let_def)
  ultimately show ?thesis using idem by simp
qed

subsection \<open>The report\<close>




subsection \<open>Grouping and ranking\<close>


















subsection \<open>Updating a book\<close>












subsection \<open>Statistics\<close>




end
